theory Spec2Isabelle
  imports Complex_Main
begin

section \<open>Data of the blueprint annotation canvas\<close>

text \<open>
  The canvas component (\<open>BlueprintCanvas\<close>) and the handlers of its owning page
  (\<open>BlueprintViewer\<close>) are embedded below. JavaScript numbers are modelled as reals.
  The rendered width and height of the image are divisors in the projections; where a
  statement divides by them it assumes them nonzero (JavaScript yields a non-finite
  number there, which the reals do not have).
\<close>

text \<open>A point \<open>{ x, y }\<close> in natural-image pixels.\<close>

record point =
  pt_x :: real
  pt_y :: real

text \<open>A \<open>DOMRect\<close> as read by \<open>getBoundingClientRect\<close>; \<open>imgRect\<close> has the same fields.\<close>

record dom_rect =
  rect_left :: real
  rect_top :: real
  rect_width :: real
  rect_height :: real

text \<open>\<open>naturalSize = { w, h }\<close>.\<close>

record natural_size =
  nat_w :: real
  nat_h :: real

text \<open>The image element behind \<open>imgRef.current\<close>.\<close>

record img_element =
  naturalWidth :: real
  naturalHeight :: real
  img_bounds :: dom_rect

text \<open>
  The part of the document the component reads: \<open>containerRef.current\<close> and
  \<open>imgRef.current\<close>, each \<open>None\<close> when not mounted; the container is given by its
  bounding rectangle.
\<close>

record dom =
  containerRef :: "dom_rect option"
  imgRef :: "img_element option"

record mouse_event =
  clientX :: real
  clientY :: real

record key_event =
  ctrlKey :: bool
  shiftKey :: bool
  key :: string

text \<open>An annotation object of the page's \<open>objects\<close> list.\<close>

record blueprint_object =
  obj_id :: string
  obj_type :: string
  pathPoints :: "point list"
  assignedTo :: "string option"
  assignedToName :: "string option"
  completed :: bool
  drawing :: bool

text \<open>
  \<open>dragRef.current\<close> is only ever assigned the all-null triple or a triple with all of
  \<open>startClient\<close>, \<open>startPoints\<close> and \<open>objId\<close> set; it is \<open>None\<close> for the former.
\<close>

record drag_session =
  startClient :: point
  startPoints :: "point list"
  objId :: string

record canvas_state =
  currentPoints :: "point list"
  redoStack :: "point list"
  mousePos :: "point option"
  dragging :: bool
  dragRef :: "drag_session option"
  imgRect :: "dom_rect option"
  naturalSize :: "natural_size option"

text \<open>
  The props the handlers read. A callback prop is \<open>True\<close> when the page passes a
  function and \<open>False\<close> when it passes \<open>undefined\<close>.
\<close>

record props =
  imageUrl :: "string option"
  activeObjectId :: "string option"
  selectedObjectId :: "string option"
  onPathUpdate :: bool
  onFinishDrawing :: bool
  onObjectSelected :: bool
  isWorker :: bool

text \<open>
  What a handler does, statement by statement: a write to the component's state or ref,
  or a call of a callback prop. A handler is a list of these in program order.
\<close>

datatype action =
    SetCurrentPoints "point list"
  | SetRedoStack "point list"
  | SetMousePos "point option"
  | SetDragging bool
  | SetDragRef "drag_session option"
  | SetImgRect "dom_rect option"
  | SetNaturalSize "natural_size option"
  | PathUpdate string "point list"
  | FinishDrawing string
  | ObjectSelected blueprint_object

fun apply_action :: "action \<Rightarrow> canvas_state \<Rightarrow> canvas_state" where
  "apply_action (SetCurrentPoints ps) s = s\<lparr>currentPoints := ps\<rparr>"
| "apply_action (SetRedoStack ps) s = s\<lparr>redoStack := ps\<rparr>"
| "apply_action (SetMousePos m) s = s\<lparr>mousePos := m\<rparr>"
| "apply_action (SetDragging b) s = s\<lparr>dragging := b\<rparr>"
| "apply_action (SetDragRef r) s = s\<lparr>dragRef := r\<rparr>"
| "apply_action (SetImgRect r) s = s\<lparr>imgRect := r\<rparr>"
| "apply_action (SetNaturalSize n) s = s\<lparr>naturalSize := n\<rparr>"
| "apply_action (PathUpdate i ps) s = s"
| "apply_action (FinishDrawing i) s = s"
| "apply_action (ObjectSelected ob) s = s"

definition run_actions :: "action list \<Rightarrow> canvas_state \<Rightarrow> canvas_state" where
  "run_actions acts s = fold apply_action acts s"

fun is_callback :: "action \<Rightarrow> bool" where
  "is_callback (PathUpdate i ps) = True"
| "is_callback (FinishDrawing i) = True"
| "is_callback (ObjectSelected ob) = True"
| "is_callback a = False"

definition callbacks :: "action list \<Rightarrow> action list" where
  "callbacks acts = filter is_callback acts"

text \<open>Truthiness of an identifier: \<open>null\<close> and the empty string are falsy.\<close>

fun truthy :: "string option \<Rightarrow> bool" where
  "truthy None = False"
| "truthy (Some i) = (i \<noteq> [])"

text \<open>\<open>xs.slice(0, -1)\<close>: all but the last element, and \<open>[]\<close> for the empty array.\<close>

definition slice_0_m1 :: "'a list \<Rightarrow> 'a list" where
  "slice_0_m1 xs = take (length xs - 1) xs"

definition initial_canvas :: canvas_state where
  "initial_canvas = \<lparr>currentPoints = [], redoStack = [], mousePos = None,
     dragging = False, dragRef = None, imgRect = None, naturalSize = None\<rparr>"

section \<open>Geometry\<close>

definition measureImage :: "dom \<Rightarrow> action list" where
  "measureImage d =
     (case imgRef d of None \<Rightarrow> []
      | Some img \<Rightarrow>
     (case containerRef d of None \<Rightarrow> []
      | Some cRect \<Rightarrow>
        if naturalWidth img = 0 then []
        else let iRect = img_bounds img in
          [SetImgRect (Some \<lparr>rect_left = rect_left iRect - rect_left cRect,
                              rect_top = rect_top iRect - rect_top cRect,
                              rect_width = rect_width iRect,
                              rect_height = rect_height iRect\<rparr>),
           SetNaturalSize (Some \<lparr>nat_w = naturalWidth img, nat_h = naturalHeight img\<rparr>)]))"

definition clientToSvg :: "canvas_state \<Rightarrow> dom \<Rightarrow> real \<Rightarrow> real \<Rightarrow> point" where
  "clientToSvg s d cx cy =
     (case imgRect s of None \<Rightarrow> \<lparr>pt_x = 0, pt_y = 0\<rparr>
      | Some ir \<Rightarrow>
     (case naturalSize s of None \<Rightarrow> \<lparr>pt_x = 0, pt_y = 0\<rparr>
      | Some ns \<Rightarrow>
     (case containerRef d of None \<Rightarrow> \<lparr>pt_x = 0, pt_y = 0\<rparr>
      | Some cRect \<Rightarrow>
        let relX = cx - rect_left cRect - rect_left ir;
            relY = cy - rect_top cRect - rect_top ir
        in \<lparr>pt_x = (relX / rect_width ir) * nat_w ns,
            pt_y = (relY / rect_height ir) * nat_h ns\<rparr>)))"

section \<open>Handlers of the canvas\<close>

text \<open>
  Each handler maps the props, the state of the current render and its event to the
  list of its writes and callback calls. An updater function passed to a state setter
  is applied to the state of the current render, one event being handled per render.
\<close>

definition is_z :: "string \<Rightarrow> bool" where
  "is_z k = (k = ''Z'' \<or> k = ''z'')"

definition handleKeyDown :: "props \<Rightarrow> key_event \<Rightarrow> canvas_state \<Rightarrow> action list" where
  "handleKeyDown p e s =
     (if \<not> truthy (activeObjectId p) then []
      else if ctrlKey e \<and> shiftKey e \<and> is_z (key e) then
        (let prev = redoStack s in
         if length prev = 0 then [SetRedoStack prev]
         else [SetCurrentPoints (currentPoints s @ [last prev]),
               SetRedoStack (slice_0_m1 prev)])
      else if ctrlKey e \<and> \<not> shiftKey e \<and> is_z (key e) then
        (let prev = currentPoints s in
         if length prev = 0 then [SetCurrentPoints prev]
         else [SetRedoStack (redoStack s @ [last prev]),
               SetCurrentPoints (slice_0_m1 prev)])
      else [])"

definition handleDragMove :: "props \<Rightarrow> mouse_event \<Rightarrow> canvas_state \<Rightarrow> action list" where
  "handleDragMove p e s =
     (case dragRef s of None \<Rightarrow> []
      | Some ref \<Rightarrow>
     (case imgRect s of None \<Rightarrow> []
      | Some ir \<Rightarrow>
     (case naturalSize s of None \<Rightarrow> []
      | Some ns \<Rightarrow>
        let dxClient = clientX e - pt_x (startClient ref);
            dyClient = clientY e - pt_y (startClient ref);
            dxNat = (dxClient / rect_width ir) * nat_w ns;
            dyNat = (dyClient / rect_height ir) * nat_h ns;
            movedPoints = map (\<lambda>q. \<lparr>pt_x = pt_x q + dxNat, pt_y = pt_y q + dyNat\<rparr>)
                              (startPoints ref)
        in if onPathUpdate p then [PathUpdate (objId ref) movedPoints] else [])))"

definition handleSvgMouseMove ::
  "props \<Rightarrow> dom \<Rightarrow> mouse_event \<Rightarrow> canvas_state \<Rightarrow> action list" where
  "handleSvgMouseMove p d e s =
     (if truthy (activeObjectId p)
      then [SetMousePos (Some (clientToSvg s d (clientX e) (clientY e)))] else [])
     @ (if dragging s then handleDragMove p e s else [])"

definition handleSvgClick ::
  "props \<Rightarrow> dom \<Rightarrow> mouse_event \<Rightarrow> canvas_state \<Rightarrow> action list" where
  "handleSvgClick p d e s =
     (if \<not> truthy (activeObjectId p) \<or> dragging s then []
      else let pos = clientToSvg s d (clientX e) (clientY e)
           in [SetCurrentPoints (currentPoints s @ [pos]), SetRedoStack []])"

definition handleSvgDoubleClick :: "props \<Rightarrow> canvas_state \<Rightarrow> action list" where
  "handleSvgDoubleClick p s =
     (case activeObjectId p of None \<Rightarrow> []
      | Some aid \<Rightarrow>
        if aid = [] then []
        else let trimmed = slice_0_m1 (currentPoints s) in
          if length trimmed < 2
          then [SetCurrentPoints [], SetRedoStack [], SetMousePos None]
          else (if onPathUpdate p then [PathUpdate aid trimmed] else [])
             @ (if onFinishDrawing p then [FinishDrawing aid] else [])
             @ [SetCurrentPoints [], SetRedoStack [], SetMousePos None])"

definition handlePathMouseDown ::
  "props \<Rightarrow> mouse_event \<Rightarrow> blueprint_object \<Rightarrow> action list" where
  "handlePathMouseDown p e ob =
     (if truthy (activeObjectId p) then []
      else (if onObjectSelected p then [ObjectSelected ob] else [])
         @ [SetDragRef (Some \<lparr>startClient = \<lparr>pt_x = clientX e, pt_y = clientY e\<rparr>,
                               startPoints = map (\<lambda>q. q) (pathPoints ob),
                               objId = obj_id ob\<rparr>),
            SetDragging True])"

definition handleDragEnd :: "action list" where
  "handleDragEnd = [SetDragging False, SetDragRef None]"

text \<open>The inline handlers of the rendered elements.\<close>

definition svgMouseLeave :: "canvas_state \<Rightarrow> action list" where
  "svgMouseLeave s = SetMousePos None # (if dragging s then handleDragEnd else [])"

definition pathMouseDown ::
  "props \<Rightarrow> mouse_event \<Rightarrow> blueprint_object \<Rightarrow> action list" where
  "pathMouseDown p e ob = (if \<not> isWorker p then handlePathMouseDown p e ob else [])"

text \<open>
  A click on a path runs the path's handler and then, unless that one stopped the
  propagation, the click handler of the enclosing svg.
\<close>

definition pathClick ::
  "props \<Rightarrow> dom \<Rightarrow> mouse_event \<Rightarrow> blueprint_object \<Rightarrow> canvas_state \<Rightarrow> action list" where
  "pathClick p d e ob s =
     (if truthy (activeObjectId p) \<or> dragging s then handleSvgClick p d e s
      else if onObjectSelected p then [ObjectSelected ob] else [])"

text \<open>The cursor style of a rendered path.\<close>

definition path_cursor :: "props \<Rightarrow> canvas_state \<Rightarrow> blueprint_object \<Rightarrow> string" where
  "path_cursor p s ob =
     (let isSelected = (Some (obj_id ob) = selectedObjectId p) in
      if truthy (activeObjectId p) then ''crosshair''
      else if isSelected \<and> \<not> isWorker p
           then (if dragging s then ''grabbing'' else ''grab'')
      else ''pointer'')"

text \<open>
  The effects that reset state when a prop changes, and the effects that run after a
  render with props \<open>p'\<close> that follows one with props \<open>p\<close>.
\<close>

definition activeObjectId_effect :: "action list" where
  "activeObjectId_effect = [SetCurrentPoints [], SetRedoStack [], SetMousePos None]"

definition imageUrl_effect :: "action list" where
  "imageUrl_effect = [SetImgRect None, SetNaturalSize None]"

definition rerender_effects :: "props \<Rightarrow> props \<Rightarrow> action list" where
  "rerender_effects p p' =
     (if imageUrl p' \<noteq> imageUrl p then imageUrl_effect else [])
     @ (if activeObjectId p' \<noteq> activeObjectId p then activeObjectId_effect else [])"

section \<open>The canvas as a machine\<close>

text \<open>
  The events of the component: the pointer events of the svg overlay and of its paths,
  key presses on the window, and the image load and resize notifications (which
  measure).
\<close>

datatype canvas_event =
    SvgClick mouse_event
  | SvgDoubleClick mouse_event
  | SvgMouseMove mouse_event
  | SvgMouseUp
  | SvgMouseLeave
  | PathMouseDown blueprint_object mouse_event
  | PathClick blueprint_object mouse_event
  | KeyDown key_event
  | Measure

text \<open>
  Without \<open>imageUrl\<close> the placeholder is rendered; the svg overlay and its paths are
  rendered only under \<open>imgRect && naturalSize\<close>.
\<close>

definition svg_rendered :: "props \<Rightarrow> canvas_state \<Rightarrow> bool" where
  "svg_rendered p s = (truthy (imageUrl p) \<and> imgRect s \<noteq> None \<and> naturalSize s \<noteq> None)"

fun pointer_actions ::
  "props \<Rightarrow> dom \<Rightarrow> canvas_event \<Rightarrow> canvas_state \<Rightarrow> action list" where
  "pointer_actions p d (SvgClick e) s = handleSvgClick p d e s"
| "pointer_actions p d (SvgDoubleClick e) s = handleSvgDoubleClick p s"
| "pointer_actions p d (SvgMouseMove e) s = handleSvgMouseMove p d e s"
| "pointer_actions p d SvgMouseUp s = handleDragEnd"
| "pointer_actions p d SvgMouseLeave s = svgMouseLeave s"
| "pointer_actions p d (PathMouseDown ob e) s = pathMouseDown p e ob"
| "pointer_actions p d (PathClick ob e) s = pathClick p d e ob s"
| "pointer_actions p d ev s = []"

fun canvas_actions ::
  "props \<Rightarrow> dom \<Rightarrow> canvas_event \<Rightarrow> canvas_state \<Rightarrow> action list" where
  "canvas_actions p d (KeyDown e) s = handleKeyDown p e s"
| "canvas_actions p d Measure s = measureImage d"
| "canvas_actions p d ev s = (if svg_rendered p s then pointer_actions p d ev s else [])"

definition canvas_step ::
  "props \<Rightarrow> dom \<Rightarrow> canvas_event \<Rightarrow> canvas_state \<Rightarrow> canvas_state" where
  "canvas_step p d ev s = run_actions (canvas_actions p d ev s) s"

text \<open>
  The component seen from outside: it receives events, and new props from its owner.
\<close>

datatype canvas_input = Event dom canvas_event | Rerender props

fun machine_step :: "canvas_input \<Rightarrow> props \<times> canvas_state \<Rightarrow> props \<times> canvas_state" where
  "machine_step (Event d ev) (p, s) = (p, canvas_step p d ev s)"
| "machine_step (Rerender p') (p, s) = (p', run_actions (rerender_effects p p') s)"

definition machine_run ::
  "canvas_input list \<Rightarrow> props \<times> canvas_state \<Rightarrow> props \<times> canvas_state" where
  "machine_run ins c = fold machine_step ins c"

section \<open>The owning page\<close>

text \<open>
  The state of \<open>BlueprintViewer\<close> that the canvas depends on, and the handlers that
  write it. \<open>isAdmin\<close> is \<open>userProfile?.role === "admin"\<close>.
\<close>

record page_state =
  objects :: "blueprint_object list"
  page_activeObjectId :: "string option"
  page_selectedObjectId :: "string option"
  blueprintImage :: "string option"
  isAdmin :: bool

definition initial_page :: "bool \<Rightarrow> page_state" where
  "initial_page adm = \<lparr>objects = [], page_activeObjectId = None,
     page_selectedObjectId = None, blueprintImage = None, isAdmin = adm\<rparr>"

text \<open>The props the page passes to the canvas.\<close>

definition canvas_props :: "page_state \<Rightarrow> props" where
  "canvas_props pg =
     \<lparr>imageUrl = blueprintImage pg,
      activeObjectId = (if isAdmin pg then page_activeObjectId pg else None),
      selectedObjectId = page_selectedObjectId pg,
      onPathUpdate = isAdmin pg,
      onFinishDrawing = isAdmin pg,
      onObjectSelected = True,
      isWorker = (\<not> isAdmin pg)\<rparr>"

definition cancelActiveDrawing :: "page_state \<Rightarrow> page_state" where
  "cancelActiveDrawing pg =
     (let prev = objects pg; a = page_activeObjectId pg in
      pg\<lparr>objects :=
           (case find (\<lambda>ob. Some (obj_id ob) = a) prev of
              None \<Rightarrow> prev
            | Some active \<Rightarrow>
                if length (pathPoints active) = 0
                then filter (\<lambda>ob. Some (obj_id ob) \<noteq> a) prev
                else map (\<lambda>ob. if Some (obj_id ob) = a then ob\<lparr>drawing := False\<rparr> else ob) prev),
         page_activeObjectId := None\<rparr>)"

text \<open>
  \<open>makeId\<close> builds \<open>obj-<Date.now()>-<counter>\<close>; the text after the prefix is an input.
\<close>

definition makeId :: "string \<Rightarrow> string" where
  "makeId stamp = ''obj-'' @ stamp"

definition startDrawing :: "string \<Rightarrow> string \<Rightarrow> page_state \<Rightarrow> page_state" where
  "startDrawing ty stamp pg =
     (if \<not> truthy (blueprintImage pg) then pg
      else let pg1 = (if truthy (page_activeObjectId pg) then cancelActiveDrawing pg else pg);
               i = makeId stamp
           in pg1\<lparr>objects := objects pg1 @
                     [\<lparr>obj_id = i, obj_type = ty, pathPoints = [], assignedTo = None,
                       assignedToName = None, completed = False, drawing = True\<rparr>],
                   page_activeObjectId := Some i,
                   page_selectedObjectId := Some i\<rparr>)"

definition handlePathUpdate :: "string \<Rightarrow> point list \<Rightarrow> page_state \<Rightarrow> page_state" where
  "handlePathUpdate i points pg =
     pg\<lparr>objects := map (\<lambda>ob. if obj_id ob = i then ob\<lparr>pathPoints := points\<rparr> else ob)
                       (objects pg)\<rparr>"

definition handleFinishDrawing :: "string \<Rightarrow> page_state \<Rightarrow> page_state" where
  "handleFinishDrawing i pg =
     pg\<lparr>objects := map (\<lambda>ob. if obj_id ob = i then ob\<lparr>drawing := False\<rparr> else ob)
                       (objects pg),
        page_activeObjectId := None\<rparr>"

text \<open>
  The inline \<open>onObjectSelected\<close> of the page; it reads \<open>activeObjectId\<close> of the render in
  which the event is handled, which is passed as \<open>a\<close>.
\<close>

definition page_onObjectSelected ::
  "string option \<Rightarrow> blueprint_object \<Rightarrow> page_state \<Rightarrow> page_state" where
  "page_onObjectSelected a ob pg =
     (if \<not> truthy a then pg\<lparr>page_selectedObjectId := Some (obj_id ob)\<rparr> else pg)"

text \<open>The success path of \<open>handleImageUpload\<close>, on the state modelled here.\<close>

definition handleImageUpload :: "string \<Rightarrow> page_state \<Rightarrow> page_state" where
  "handleImageUpload url pg = pg\<lparr>blueprintImage := Some url, objects := []\<rparr>"

text \<open>The page's reaction to a callback call of the canvas.\<close>

fun page_callback :: "string option \<Rightarrow> action \<Rightarrow> page_state \<Rightarrow> page_state" where
  "page_callback a (PathUpdate i ps) pg = handlePathUpdate i ps pg"
| "page_callback a (FinishDrawing i) pg = handleFinishDrawing i pg"
| "page_callback a (ObjectSelected ob) pg = page_onObjectSelected a ob pg"
| "page_callback a act pg = pg"

section \<open>Page and canvas together\<close>

record app =
  page :: page_state
  canvas :: canvas_state

datatype app_event =
    StartDrawing string string
  | CancelActiveDrawing
  | ImageUploaded string
  | Canvas canvas_event

definition initial_app :: "bool \<Rightarrow> app" where
  "initial_app adm = \<lparr>page = initial_page adm, canvas = initial_canvas\<rparr>"

fun page_step :: "app_event \<Rightarrow> page_state \<Rightarrow> page_state" where
  "page_step (StartDrawing ty stamp) pg = (if isAdmin pg then startDrawing ty stamp pg else pg)"
| "page_step CancelActiveDrawing pg = (if isAdmin pg then cancelActiveDrawing pg else pg)"
| "page_step (ImageUploaded url) pg = (if isAdmin pg then handleImageUpload url pg else pg)"
| "page_step (Canvas ev) pg = pg"

text \<open>
  One input event: the handler runs on the state of the current render, its writes and
  callback calls are applied in order, and in the render that follows the effects of
  the changed props run.
\<close>

definition app_step :: "dom \<Rightarrow> app_event \<Rightarrow> app \<Rightarrow> app" where
  "app_step d ev a =
     (let pg = page a; s = canvas a;
          acts = (case ev of Canvas cev \<Rightarrow> canvas_actions (canvas_props pg) d cev s | _ \<Rightarrow> []);
          pg' = fold (page_callback (page_activeObjectId pg)) (callbacks acts) (page_step ev pg);
          s' = run_actions acts s
      in \<lparr>page = pg',
          canvas = run_actions (rerender_effects (canvas_props pg) (canvas_props pg')) s'\<rparr>)"

fun app_run :: "(dom \<times> app_event) list \<Rightarrow> app \<Rightarrow> app" where
  "app_run [] a = a"
| "app_run ((d, ev) # evs) a = app_run evs (app_step d ev a)"

section \<open>Example inputs\<close>

definition drawing_props :: props where
  "drawing_props = \<lparr>imageUrl = Some ''plan.png'', activeObjectId = Some ''obj-1'',
     selectedObjectId = Some ''obj-1'', onPathUpdate = True, onFinishDrawing = True,
     onObjectSelected = True, isWorker = False\<rparr>"

definition idle_props :: props where
  "idle_props = \<lparr>imageUrl = Some ''plan.png'', activeObjectId = None,
     selectedObjectId = None, onPathUpdate = True, onFinishDrawing = True,
     onObjectSelected = True, isWorker = False\<rparr>"

definition worker_props :: props where
  "worker_props = \<lparr>imageUrl = Some ''plan.png'', activeObjectId = None,
     selectedObjectId = Some ''obj-1'', onPathUpdate = False, onFinishDrawing = False,
     onObjectSelected = True, isWorker = True\<rparr>"

definition pt :: "real \<Rightarrow> real \<Rightarrow> point" where
  "pt a b = \<lparr>pt_x = a, pt_y = b\<rparr>"

definition at_client :: "real \<Rightarrow> real \<Rightarrow> mouse_event" where
  "at_client a b = \<lparr>clientX = a, clientY = b\<rparr>"

text \<open>
  A 400 by 300 image rendered at 200 by 100, offset by (10, 20) in a container whose
  corner is at (5, 5) of the viewport.
\<close>

definition sample_dom :: dom where
  "sample_dom = \<lparr>containerRef = Some \<lparr>rect_left = 5, rect_top = 5, rect_width = 300, rect_height = 200\<rparr>,
     imgRef = Some \<lparr>naturalWidth = 400, naturalHeight = 300,
       img_bounds = \<lparr>rect_left = 15, rect_top = 25, rect_width = 200, rect_height = 100\<rparr>\<rparr>\<rparr>"

definition measured_canvas :: canvas_state where
  "measured_canvas = initial_canvas\<lparr>
     imgRect := Some \<lparr>rect_left = 10, rect_top = 20, rect_width = 200, rect_height = 100\<rparr>,
     naturalSize := Some \<lparr>nat_w = 400, nat_h = 300\<rparr>\<rparr>"

definition sample_object :: blueprint_object where
  "sample_object = \<lparr>obj_id = ''obj-1'', obj_type = ''pipe'',
     pathPoints = [pt 0 0, pt 40 30], assignedTo = None, assignedToName = None,
     completed = False, drawing = False\<rparr>"

text \<open>The two key combinations that \<open>handleKeyDown\<close> tells apart.\<close>

definition is_undo :: "key_event \<Rightarrow> bool" where
  "is_undo e = (ctrlKey e \<and> \<not> shiftKey e \<and> is_z (key e))"

definition is_redo :: "key_event \<Rightarrow> bool" where
  "is_redo e = (ctrlKey e \<and> shiftKey e \<and> is_z (key e))"

definition undo_key :: key_event where
  "undo_key = \<lparr>ctrlKey = True, shiftKey = False, key = ''z''\<rparr>"

definition redo_key :: key_event where
  "redo_key = \<lparr>ctrlKey = True, shiftKey = True, key = ''Z''\<rparr>"

text \<open>A run of pointer moves over the overlay.\<close>

definition run_moves :: "props \<Rightarrow> dom \<Rightarrow> mouse_event list \<Rightarrow> canvas_state \<Rightarrow> canvas_state" where
  "run_moves p d ms s = fold (\<lambda>m. canvas_step p d (SvgMouseMove m)) ms s"

text \<open>Inputs of a component whose viewer stays read-only.\<close>

fun worker_input :: "canvas_input \<Rightarrow> bool" where
  "worker_input (Event d ev) = True"
| "worker_input (Rerender p') = isWorker p'"

text \<open>At most one of drawing (an identifier is active) and dragging.\<close>

definition exclusive :: "props \<times> canvas_state \<Rightarrow> bool" where
  "exclusive c = (\<not> (truthy (activeObjectId (fst c)) \<and> dragging (snd c)))"

text \<open>
  Sessions of an admin on the page: upload, image load, start a pipe, then either a
  double click straight away, or two points, the double click, a press on the finished
  path and, with the button still down, the start of another drawing.
\<close>

definition early_double_click :: "(dom \<times> app_event) list" where
  "early_double_click =
     [(sample_dom, ImageUploaded ''plan.png''),
      (sample_dom, Canvas Measure),
      (sample_dom, StartDrawing ''pipe'' ''1700000000000-1''),
      (sample_dom, Canvas (SvgClick (at_client 115 75))),
      (sample_dom, Canvas (SvgClick (at_client 115 75))),
      (sample_dom, Canvas (SvgDoubleClick (at_client 115 75)))]"

definition drawn_object :: blueprint_object where
  "drawn_object = \<lparr>obj_id = ''obj-1700000000000-1'', obj_type = ''pipe'',
     pathPoints = [pt 200 150, pt 240 180], assignedTo = None, assignedToName = None,
     completed = False, drawing = False\<rparr>"

definition draw_one_pipe :: "(dom \<times> app_event) list" where
  "draw_one_pipe =
     [(sample_dom, ImageUploaded ''plan.png''),
      (sample_dom, Canvas Measure),
      (sample_dom, StartDrawing ''pipe'' ''1700000000000-1''),
      (sample_dom, Canvas (SvgClick (at_client 115 75))),
      (sample_dom, Canvas (SvgClick (at_client 135 85))),
      (sample_dom, Canvas (SvgClick (at_client 135 85))),
      (sample_dom, Canvas (SvgDoubleClick (at_client 135 85)))]"

definition activation_during_drag :: "(dom \<times> app_event) list" where
  "activation_during_drag = draw_one_pipe @
     [(sample_dom, Canvas (PathMouseDown drawn_object (at_client 120 78))),
      (sample_dom, StartDrawing ''connection'' ''1700000000500-2'')]"

section \<open>Auxiliary facts\<close>

lemmas trace_defs = app_step_def initial_app_def initial_page_def initial_canvas_def
  canvas_props_def rerender_effects_def imageUrl_effect_def activeObjectId_effect_def
  run_actions_def callbacks_def handleImageUpload_def startDrawing_def cancelActiveDrawing_def
  makeId_def handlePathUpdate_def handleFinishDrawing_def page_onObjectSelected_def
  measureImage_def clientToSvg_def svg_rendered_def handleSvgClick_def handleSvgDoubleClick_def
  pathMouseDown_def handlePathMouseDown_def slice_0_m1_def
  sample_dom_def at_client_def pt_def Let_def

lemma app_run_append: "app_run (xs @ ys) a = app_run ys (app_run xs a)"
  by (induction xs arbitrary: a) auto


lemma slice_0_m1_butlast: "slice_0_m1 xs = butlast xs"
  by (simp add: slice_0_m1_def butlast_conv_take)

lemma length_slice_0_m1: "length (slice_0_m1 xs) = length xs - 1"
  by (simp add: slice_0_m1_def)

section \<open>Finishing a drawing\<close>

text \<open>
  Claim C1. When the double click finishes a drawing whose point buffer has
  \<open>n \<ge> 3\<close> points, the path reported to the page is the first \<open>n - 1\<close> points of the
  buffer: exactly the last appended point is dropped, and no other path is reported.
\<close>

theorem double_click_reports_all_but_last:
  assumes "activeObjectId p = Some aid" and "aid \<noteq> []" and "onPathUpdate p"
    and "3 \<le> length (currentPoints s)"
  shows "callbacks (handleSvgDoubleClick p s) =
           PathUpdate aid (take (length (currentPoints s) - 1) (currentPoints s))
           # (if onFinishDrawing p then [FinishDrawing aid] else [])"
  using assms
  by (simp add: handleSvgDoubleClick_def callbacks_def slice_0_m1_def Let_def)

text \<open>The raw buffer \<open>[p0, p1, p2, p2]\<close> is reported as \<open>[p0, p1, p2]\<close>.\<close>

theorem double_click_reports_all_but_last_witness:
  "callbacks (handleSvgDoubleClick drawing_props
      (measured_canvas\<lparr>currentPoints := [pt 0 0, pt 1 0, pt 1 2, pt 1 2]\<rparr>))
   = [PathUpdate ''obj-1'' [pt 0 0, pt 1 0, pt 1 2], FinishDrawing ''obj-1'']"
  using double_click_reports_all_but_last [of drawing_props "''obj-1''"
      "measured_canvas\<lparr>currentPoints := [pt 0 0, pt 1 0, pt 1 2, pt 1 2]\<rparr>"]
  by (simp add: drawing_props_def)

lemma finish_actions:
  assumes "activeObjectId p = Some aid" and "aid \<noteq> []"
    and "2 \<le> length (slice_0_m1 (currentPoints s))"
  shows "handleSvgDoubleClick p s =
           (if onPathUpdate p then [PathUpdate aid (slice_0_m1 (currentPoints s))] else [])
           @ (if onFinishDrawing p then [FinishDrawing aid] else [])
           @ [SetCurrentPoints [], SetRedoStack [], SetMousePos None]"
  using assms by (simp add: handleSvgDoubleClick_def Let_def)

text \<open>
  Claim C5. On a successful finish the handler first calls the path-updated callback
  with the trimmed points, then the drawing-finished callback, and then clears the point
  buffer, the redo buffer and the pointer position. No path update follows the
  drawing-finished call, and no state is written before a callback is called.
\<close>

theorem finish_reports_path_then_finished_then_clears:
  assumes "activeObjectId p = Some aid" and "aid \<noteq> []"
    and "2 \<le> length (slice_0_m1 (currentPoints s))"
  shows "(onPathUpdate p \<and> onFinishDrawing p \<longrightarrow>
            handleSvgDoubleClick p s =
              [PathUpdate aid (slice_0_m1 (currentPoints s)), FinishDrawing aid,
               SetCurrentPoints [], SetRedoStack [], SetMousePos None])
       \<and> (\<forall>pre post ps. handleSvgDoubleClick p s = pre @ FinishDrawing aid # post
             \<longrightarrow> PathUpdate aid ps \<notin> set post)
       \<and> (\<forall>pre a post. handleSvgDoubleClick p s = pre @ a # post \<and> is_callback a
             \<longrightarrow> (\<forall>b \<in> set pre. is_callback b))
       \<and> run_actions (handleSvgDoubleClick p s) s
            = s\<lparr>currentPoints := [], redoStack := [], mousePos := None\<rparr>"
proof -
  note acts = finish_actions [OF assms]
  have one: "onPathUpdate p \<and> onFinishDrawing p \<longrightarrow>
            handleSvgDoubleClick p s =
              [PathUpdate aid (slice_0_m1 (currentPoints s)), FinishDrawing aid,
               SetCurrentPoints [], SetRedoStack [], SetMousePos None]"
    by (simp add: acts)
  have two: "\<forall>pre post ps. handleSvgDoubleClick p s = pre @ FinishDrawing aid # post
             \<longrightarrow> PathUpdate aid ps \<notin> set post"
    unfolding acts by (auto simp add: Cons_eq_append_conv append_eq_Cons_conv)
  have three: "\<forall>pre a post. handleSvgDoubleClick p s = pre @ a # post \<and> is_callback a
             \<longrightarrow> (\<forall>b \<in> set pre. is_callback b)"
    unfolding acts by (auto simp add: Cons_eq_append_conv append_eq_Cons_conv)
  have four: "run_actions (handleSvgDoubleClick p s) s
            = s\<lparr>currentPoints := [], redoStack := [], mousePos := None\<rparr>"
    unfolding acts by (simp add: run_actions_def)
  from one two three four show ?thesis by blast
qed

theorem finish_reports_path_then_finished_then_clears_witness:
  "activeObjectId drawing_props = Some ''obj-1''
   \<and> 2 \<le> length (slice_0_m1 [pt 0 0, pt 1 0, pt 1 2, pt 1 2])
   \<and> handleSvgDoubleClick drawing_props
        (measured_canvas\<lparr>currentPoints := [pt 0 0, pt 1 0, pt 1 2, pt 1 2]\<rparr>)
      = [PathUpdate ''obj-1'' [pt 0 0, pt 1 0, pt 1 2], FinishDrawing ''obj-1'',
         SetCurrentPoints [], SetRedoStack [], SetMousePos None]"
  using finish_reports_path_then_finished_then_clears [of drawing_props "''obj-1''"
      "measured_canvas\<lparr>currentPoints := [pt 0 0, pt 1 0, pt 1 2, pt 1 2]\<rparr>"]
  by (simp add: drawing_props_def slice_0_m1_def)

section \<open>Undo, redo and new points\<close>

lemma undo_step:
  assumes "truthy (activeObjectId p)" and "is_undo u"
  shows "canvas_step p d (KeyDown u) s =
     (if currentPoints s = [] then s
      else s\<lparr>redoStack := redoStack s @ [last (currentPoints s)],
             currentPoints := butlast (currentPoints s)\<rparr>)"
  using assms
  by (simp add: canvas_step_def handleKeyDown_def is_undo_def run_actions_def
      slice_0_m1_butlast Let_def)

lemma redo_step:
  assumes "truthy (activeObjectId p)" and "is_redo r"
  shows "canvas_step p d (KeyDown r) s =
     (if redoStack s = [] then s
      else s\<lparr>currentPoints := currentPoints s @ [last (redoStack s)],
             redoStack := butlast (redoStack s)\<rparr>)"
  using assms
  by (simp add: canvas_step_def handleKeyDown_def is_redo_def run_actions_def
      slice_0_m1_butlast Let_def)

text \<open>
  Claim C3. While an identifier is active, an undo on a non-empty point buffer removes
  its last point, which shortens the buffer by exactly one, and puts that point on the
  redo buffer; a redo right after it gives back the state before the undo. An undo on an
  empty point buffer and a redo on an empty redo buffer change nothing.
\<close>

theorem undo_then_redo_restores:
  assumes "truthy (activeObjectId p)" and "is_undo u" and "is_redo r"
  shows "(currentPoints s \<noteq> [] \<longrightarrow>
            length (currentPoints (canvas_step p d (KeyDown u) s)) + 1 = length (currentPoints s)
          \<and> currentPoints (canvas_step p d (KeyDown u) s) = butlast (currentPoints s)
          \<and> redoStack (canvas_step p d (KeyDown u) s) = redoStack s @ [last (currentPoints s)]
          \<and> canvas_step p d' (KeyDown r) (canvas_step p d (KeyDown u) s) = s)
       \<and> (currentPoints s = [] \<longrightarrow> canvas_step p d (KeyDown u) s = s)
       \<and> (redoStack s = [] \<longrightarrow> canvas_step p d (KeyDown r) s = s)"
  using assms by (simp add: undo_step redo_step)

theorem undo_then_redo_restores_witness:
  "truthy (activeObjectId drawing_props) \<and> is_undo undo_key \<and> is_redo redo_key
   \<and> currentPoints (canvas_step drawing_props sample_dom (KeyDown undo_key)
        (measured_canvas\<lparr>currentPoints := [pt 0 0, pt 1 0]\<rparr>)) = [pt 0 0]
   \<and> redoStack (canvas_step drawing_props sample_dom (KeyDown undo_key)
        (measured_canvas\<lparr>currentPoints := [pt 0 0, pt 1 0]\<rparr>)) = [pt 1 0]
   \<and> canvas_step drawing_props sample_dom (KeyDown redo_key)
        (canvas_step drawing_props sample_dom (KeyDown undo_key)
           (measured_canvas\<lparr>currentPoints := [pt 0 0, pt 1 0]\<rparr>))
      = measured_canvas\<lparr>currentPoints := [pt 0 0, pt 1 0]\<rparr>
   \<and> canvas_step drawing_props sample_dom (KeyDown undo_key) measured_canvas = measured_canvas
   \<and> canvas_step drawing_props sample_dom (KeyDown redo_key) measured_canvas = measured_canvas"
proof -
  have h: "truthy (activeObjectId drawing_props)" "is_undo undo_key" "is_redo redo_key"
    by (simp_all add: drawing_props_def is_undo_def is_redo_def undo_key_def redo_key_def is_z_def)
  have e: "currentPoints measured_canvas = []" "redoStack measured_canvas = []"
    by (simp_all add: measured_canvas_def initial_canvas_def)
  show ?thesis
    using h e
      undo_then_redo_restores [OF h, of "measured_canvas\<lparr>currentPoints := [pt 0 0, pt 1 0]\<rparr>"
        sample_dom sample_dom]
      undo_then_redo_restores [OF h, of measured_canvas sample_dom sample_dom]
    by simp
qed

lemma click_step:
  "canvas_step p d (SvgClick e) s =
     (if svg_rendered p s \<and> truthy (activeObjectId p) \<and> \<not> dragging s
      then s\<lparr>currentPoints := currentPoints s @ [clientToSvg s d (clientX e) (clientY e)],
             redoStack := []\<rparr>
      else s)"
  by (simp add: canvas_step_def handleSvgClick_def run_actions_def Let_def)

lemma path_click_step:
  "currentPoints (canvas_step p d (PathClick ob e) s) = currentPoints (canvas_step p d (SvgClick e) s)
   \<and> redoStack (canvas_step p d (PathClick ob e) s) = redoStack (canvas_step p d (SvgClick e) s)"
  by (simp add: canvas_step_def handleSvgClick_def pathClick_def run_actions_def Let_def)

text \<open>
  Claim C4. A click that adds a point leaves the redo buffer empty, whatever it held
  before: a click on the overlay while an identifier is active and no drag is open
  appends the projected point and empties the redo buffer, and whenever a click on the
  overlay or on a path changes the point buffer the redo buffer is empty afterwards.
\<close>

theorem click_clears_redo:
  "(svg_rendered p s \<and> truthy (activeObjectId p) \<and> \<not> dragging s \<longrightarrow>
      currentPoints (canvas_step p d (SvgClick e) s)
        = currentPoints s @ [clientToSvg s d (clientX e) (clientY e)]
      \<and> redoStack (canvas_step p d (SvgClick e) s) = [])
   \<and> (currentPoints (canvas_step p d (SvgClick e) s) \<noteq> currentPoints s \<longrightarrow>
        redoStack (canvas_step p d (SvgClick e) s) = [])
   \<and> (currentPoints (canvas_step p d (PathClick ob e) s) \<noteq> currentPoints s \<longrightarrow>
        redoStack (canvas_step p d (PathClick ob e) s) = [])"
  by (simp add: path_click_step click_step)

theorem click_clears_redo_witness:
  "svg_rendered drawing_props (measured_canvas\<lparr>currentPoints := [pt 0 0], redoStack := [pt 7 7]\<rparr>)
   \<and> truthy (activeObjectId drawing_props)
   \<and> currentPoints (canvas_step drawing_props sample_dom (SvgClick (at_client 115 75))
        (measured_canvas\<lparr>currentPoints := [pt 0 0], redoStack := [pt 7 7]\<rparr>))
      = [pt 0 0, pt 200 150]
   \<and> redoStack (canvas_step drawing_props sample_dom (SvgClick (at_client 115 75))
        (measured_canvas\<lparr>currentPoints := [pt 0 0], redoStack := [pt 7 7]\<rparr>)) = []"
  using click_clears_redo [of drawing_props
      "measured_canvas\<lparr>currentPoints := [pt 0 0], redoStack := [pt 7 7]\<rparr>"
      sample_dom "at_client 115 75" sample_object]
  by (simp add: drawing_props_def measured_canvas_def initial_canvas_def svg_rendered_def
      clientToSvg_def sample_dom_def at_client_def pt_def)

section \<open>Projection from the screen to the image\<close>

text \<open>
  Claim C7. \<open>clientToSvg\<close> returns the point (0, 0) when the image rectangle or the
  natural size has not been measured or the container is not mounted. Otherwise, for
  nonzero rendered sizes, it is the pointer position relative to the container, less the
  offset of the image in the container, scaled by natural width over rendered width on
  the x axis and by natural height over rendered height on the y axis.
\<close>

theorem clientToSvg_projection:
  "(imgRect s = None \<or> naturalSize s = None \<or> containerRef d = None \<longrightarrow>
      clientToSvg s d cx cy = \<lparr>pt_x = 0, pt_y = 0\<rparr>)
   \<and> (imgRect s = Some ir \<and> naturalSize s = Some ns \<and> containerRef d = Some c
        \<and> rect_width ir \<noteq> 0 \<and> rect_height ir \<noteq> 0 \<longrightarrow>
      clientToSvg s d cx cy =
        \<lparr>pt_x = ((cx - rect_left c) - rect_left ir) * (nat_w ns / rect_width ir),
         pt_y = ((cy - rect_top c) - rect_top ir) * (nat_h ns / rect_height ir)\<rparr>)"
  by (auto simp add: clientToSvg_def Let_def split: option.splits)

theorem clientToSvg_projection_witness:
  "imgRect initial_canvas = None
   \<and> clientToSvg initial_canvas sample_dom 115 75 = pt 0 0
   \<and> containerRef (sample_dom\<lparr>containerRef := None\<rparr>) = None
   \<and> clientToSvg measured_canvas (sample_dom\<lparr>containerRef := None\<rparr>) 115 75 = pt 0 0
   \<and> imgRect measured_canvas
        = Some \<lparr>rect_left = 10, rect_top = 20, rect_width = 200, rect_height = 100\<rparr>
   \<and> naturalSize measured_canvas = Some \<lparr>nat_w = 400, nat_h = 300\<rparr>
   \<and> clientToSvg measured_canvas sample_dom 115 75 = pt 200 150"
  using clientToSvg_projection [of initial_canvas sample_dom 115 75]
    clientToSvg_projection [of measured_canvas "sample_dom\<lparr>containerRef := None\<rparr>" 115 75]
    clientToSvg_projection [of measured_canvas sample_dom 115 75
      "\<lparr>rect_left = 10, rect_top = 20, rect_width = 200, rect_height = 100\<rparr>"
      "\<lparr>nat_w = 400, nat_h = 300\<rparr>"
      "\<lparr>rect_left = 5, rect_top = 5, rect_width = 300, rect_height = 200\<rparr>"]
  by (simp add: measured_canvas_def initial_canvas_def sample_dom_def pt_def)

lemma scale_neg_iff:
  fixes r w n :: real
  assumes "0 < w" and "0 < n"
  shows "(r / w) * n < 0 \<longleftrightarrow> r < 0"
  using assms
  by (simp add: mult_less_0_iff divide_less_0_iff zero_less_divide_iff not_less less_imp_le)

lemma scale_beyond_iff:
  fixes r w n :: real
  assumes "0 < w" and "0 < n"
  shows "n < (r / w) * n \<longleftrightarrow> w < r"
proof -
  have "n < (r / w) * n \<longleftrightarrow> 1 * n < (r / w) * n" by simp
  also have "\<dots> \<longleftrightarrow> 1 < r / w" using assms(2) by (simp only: mult_less_cancel_right_pos)
  also have "\<dots> \<longleftrightarrow> w < r" using assms(1) by (simp add: field_simps)
  finally show ?thesis .
qed

text \<open>
  Claim C10. With a measured frame of positive rendered and natural sizes the projection
  does not clamp: on each axis a pointer before the rendered image maps to a negative
  coordinate and a pointer beyond it maps to a coordinate above the natural size, and
  only then. A click there while an identifier is active and no drag is open appends
  that very point to the point buffer.
\<close>

theorem projection_not_clamped:
  assumes "imgRect s = Some ir" and "naturalSize s = Some ns" and "containerRef d = Some c"
    and "0 < rect_width ir" and "0 < rect_height ir" and "0 < nat_w ns" and "0 < nat_h ns"
  shows "(clientX e - rect_left c - rect_left ir < 0
            \<longleftrightarrow> pt_x (clientToSvg s d (clientX e) (clientY e)) < 0)
       \<and> (rect_width ir < clientX e - rect_left c - rect_left ir
            \<longleftrightarrow> nat_w ns < pt_x (clientToSvg s d (clientX e) (clientY e)))
       \<and> (clientY e - rect_top c - rect_top ir < 0
            \<longleftrightarrow> pt_y (clientToSvg s d (clientX e) (clientY e)) < 0)
       \<and> (rect_height ir < clientY e - rect_top c - rect_top ir
            \<longleftrightarrow> nat_h ns < pt_y (clientToSvg s d (clientX e) (clientY e)))
       \<and> (truthy (imageUrl p) \<and> truthy (activeObjectId p) \<and> \<not> dragging s \<longrightarrow>
            currentPoints (canvas_step p d (SvgClick e) s)
              = currentPoints s @ [clientToSvg s d (clientX e) (clientY e)])"
proof -
  let ?q = "clientToSvg s d (clientX e) (clientY e)"
  have X: "pt_x ?q = ((clientX e - rect_left c - rect_left ir) / rect_width ir) * nat_w ns"
    and Y: "pt_y ?q = ((clientY e - rect_top c - rect_top ir) / rect_height ir) * nat_h ns"
    using assms(1-3) by (simp_all add: clientToSvg_def Let_def)
  have x_neg: "clientX e - rect_left c - rect_left ir < 0 \<longleftrightarrow> pt_x ?q < 0"
    unfolding X using scale_neg_iff [OF assms(4) assms(6)] by blast
  have x_far: "rect_width ir < clientX e - rect_left c - rect_left ir \<longleftrightarrow> nat_w ns < pt_x ?q"
    unfolding X using scale_beyond_iff [OF assms(4) assms(6)] by blast
  have y_neg: "clientY e - rect_top c - rect_top ir < 0 \<longleftrightarrow> pt_y ?q < 0"
    unfolding Y using scale_neg_iff [OF assms(5) assms(7)] by blast
  have y_far: "rect_height ir < clientY e - rect_top c - rect_top ir \<longleftrightarrow> nat_h ns < pt_y ?q"
    unfolding Y using scale_beyond_iff [OF assms(5) assms(7)] by blast
  have click: "truthy (imageUrl p) \<and> truthy (activeObjectId p) \<and> \<not> dragging s \<longrightarrow>
      currentPoints (canvas_step p d (SvgClick e) s) = currentPoints s @ [?q]"
    using assms(1,2) by (simp add: click_step svg_rendered_def)
  from x_neg x_far y_neg y_far click show ?thesis by blast
qed

theorem projection_not_clamped_witness:
  "imgRect measured_canvas
      = Some \<lparr>rect_left = 10, rect_top = 20, rect_width = 200, rect_height = 100\<rparr>
   \<and> naturalSize measured_canvas = Some \<lparr>nat_w = 400, nat_h = 300\<rparr>
   \<and> clientToSvg measured_canvas sample_dom 0 0 = pt (- 30) (- 75)
   \<and> currentPoints (canvas_step drawing_props sample_dom (SvgClick (at_client 0 0))
        (measured_canvas\<lparr>currentPoints := [pt 1 1]\<rparr>)) = [pt 1 1, pt (- 30) (- 75)]"
proof -
  have q: "clientToSvg measured_canvas sample_dom 0 0 = pt (- 30) (- 75)"
    by (simp add: clientToSvg_def measured_canvas_def initial_canvas_def sample_dom_def pt_def)
  have q': "clientToSvg (measured_canvas\<lparr>currentPoints := [pt 1 1]\<rparr>) sample_dom 0 0
      = pt (- 30) (- 75)"
    by (simp add: clientToSvg_def measured_canvas_def initial_canvas_def sample_dom_def pt_def)
  show ?thesis
    using q q' projection_not_clamped [of "measured_canvas\<lparr>currentPoints := [pt 1 1]\<rparr>"
      "\<lparr>rect_left = 10, rect_top = 20, rect_width = 200, rect_height = 100\<rparr>"
      "\<lparr>nat_w = 400, nat_h = 300\<rparr>" sample_dom
      "\<lparr>rect_left = 5, rect_top = 5, rect_width = 300, rect_height = 200\<rparr>"
      "at_client 0 0" drawing_props]
    by (simp add: measured_canvas_def initial_canvas_def sample_dom_def at_client_def
        drawing_props_def)
qed

section \<open>A double click that leaves fewer than two points\<close>

lemma short_double_click_calls_nothing:
  assumes "length (slice_0_m1 (currentPoints s)) < 2"
  shows "callbacks (handleSvgDoubleClick p s) = []"
  using assms
  by (simp add: handleSvgDoubleClick_def callbacks_def Let_def split: option.splits)

lemma short_double_click_page_unchanged:
  assumes "length (slice_0_m1 (currentPoints (canvas a))) < 2"
  shows "page (app_step d (Canvas (SvgDoubleClick e)) a) = page a"
  using short_double_click_calls_nothing [OF assms]
  by (simp add: app_step_def Let_def callbacks_def)

text \<open>
  Claim C2 says that a double click which leaves fewer than two points after trimming
  removes the object from the page's list, with no path-updated and no drawing-finished
  call. The handler makes no call at all in that branch and only clears its own buffers,
  so the page's list does not change: after start drawing, click, click, double click
  the buffer \<open>[p, p]\<close> is discarded, and the new object is still in the list, still marked
  as being drawn, and its identifier is still the active one.
\<close>

theorem early_double_click_keeps_object:
  "currentPoints (canvas (app_run (butlast early_double_click) (initial_app True)))
     = [pt 200 150, pt 200 150]
   \<and> objects (page (app_run early_double_click (initial_app True)))
     = [\<lparr>obj_id = ''obj-1700000000000-1'', obj_type = ''pipe'', pathPoints = [],
         assignedTo = None, assignedToName = None, completed = False, drawing = True\<rparr>]
   \<and> page_activeObjectId (page (app_run early_double_click (initial_app True)))
     = Some ''obj-1700000000000-1''
   \<and> currentPoints (canvas (app_run early_double_click (initial_app True))) = []"
  by (simp add: early_double_click_def trace_defs)

section \<open>Dragging a finished path\<close>

lemma move_keeps_drag:
  "dragRef (canvas_step p d (SvgMouseMove m) s) = dragRef s
   \<and> dragging (canvas_step p d (SvgMouseMove m) s) = dragging s
   \<and> imgRect (canvas_step p d (SvgMouseMove m) s) = imgRect s
   \<and> naturalSize (canvas_step p d (SvgMouseMove m) s) = naturalSize s"
  by (simp add: canvas_step_def handleSvgMouseMove_def handleDragMove_def run_actions_def Let_def
      split: option.splits)

lemma run_moves_keeps_drag:
  "dragRef (run_moves p d ms s) = dragRef s
   \<and> dragging (run_moves p d ms s) = dragging s
   \<and> imgRect (run_moves p d ms s) = imgRect s
   \<and> naturalSize (run_moves p d ms s) = naturalSize s"
  unfolding run_moves_def
  by (induction ms arbitrary: s) (simp_all add: move_keeps_drag)

lemma mouse_down_opens:
  assumes "svg_rendered p s" and "\<not> truthy (activeObjectId p)" and "\<not> isWorker p"
  shows "canvas_step p d (PathMouseDown ob e0) s =
           s\<lparr>dragRef := Some \<lparr>startClient = \<lparr>pt_x = clientX e0, pt_y = clientY e0\<rparr>,
                              startPoints = pathPoints ob, objId = obj_id ob\<rparr>,
             dragging := True\<rparr>"
  using assms
  by (simp add: canvas_step_def pathMouseDown_def handlePathMouseDown_def run_actions_def)

lemma drag_move_callbacks:
  assumes "truthy (imageUrl p)" and "\<not> truthy (activeObjectId p)" and "onPathUpdate p"
    and "dragging s" and "dragRef s = Some ref"
    and "imgRect s = Some ir" and "naturalSize s = Some ns"
  shows "callbacks (canvas_actions p d (SvgMouseMove e) s) =
     [PathUpdate (objId ref)
        (map (\<lambda>q. \<lparr>pt_x = pt_x q + (clientX e - pt_x (startClient ref)) / rect_width ir * nat_w ns,
                   pt_y = pt_y q + (clientY e - pt_y (startClient ref)) / rect_height ir * nat_h ns\<rparr>)
             (startPoints ref))]"
  using assms
  by (simp add: svg_rendered_def handleSvgMouseMove_def handleDragMove_def callbacks_def Let_def)

text \<open>
  Claim C6. In a drag session opened by a press at \<open>e0\<close> on the path of \<open>ob\<close>, after any
  pointer moves \<open>ms\<close>, a move to \<open>e\<close> reports for \<open>ob\<close> the points of the snapshot taken at
  the press, each translated by
  \<open>((clientX e - clientX e0) / rendered width * natural width,
    (clientY e - clientY e0) / rendered height * natural height)\<close>.
  The reported path does not depend on \<open>ms\<close>: it is the one a single direct move to \<open>e\<close>
  reports.
\<close>

theorem drag_translates_snapshot_without_drift:
  assumes "truthy (imageUrl p)" and "imgRect s0 = Some ir" and "naturalSize s0 = Some ns"
    and "rect_width ir \<noteq> 0" and "rect_height ir \<noteq> 0"
    and "\<not> truthy (activeObjectId p)" and "\<not> isWorker p" and "onPathUpdate p"
  shows "callbacks (canvas_actions p d (SvgMouseMove e)
            (run_moves p d ms (canvas_step p d (PathMouseDown ob e0) s0)))
         = [PathUpdate (obj_id ob)
             (map (\<lambda>q. \<lparr>pt_x = pt_x q + (clientX e - clientX e0) / rect_width ir * nat_w ns,
                        pt_y = pt_y q + (clientY e - clientY e0) / rect_height ir * nat_h ns\<rparr>)
                  (pathPoints ob))]
       \<and> callbacks (canvas_actions p d (SvgMouseMove e)
            (run_moves p d ms (canvas_step p d (PathMouseDown ob e0) s0)))
         = callbacks (canvas_actions p d (SvgMouseMove e)
            (canvas_step p d (PathMouseDown ob e0) s0))"
proof -
  let ?s1 = "canvas_step p d (PathMouseDown ob e0) s0"
  let ?ref = "\<lparr>startClient = \<lparr>pt_x = clientX e0, pt_y = clientY e0\<rparr>,
               startPoints = pathPoints ob, objId = obj_id ob\<rparr>"
  have r: "svg_rendered p s0" using assms(1-3) by (simp add: svg_rendered_def)
  have s1: "dragging ?s1" "dragRef ?s1 = Some ?ref" "imgRect ?s1 = Some ir"
    "naturalSize ?s1 = Some ns"
    using assms(2,3) by (simp_all add: mouse_down_opens [OF r assms(6) assms(7)])
  have sn: "dragging (run_moves p d ms ?s1)" "dragRef (run_moves p d ms ?s1) = Some ?ref"
    "imgRect (run_moves p d ms ?s1) = Some ir" "naturalSize (run_moves p d ms ?s1) = Some ns"
    using s1 by (simp_all add: run_moves_keeps_drag)
  have a: "callbacks (canvas_actions p d (SvgMouseMove e) (run_moves p d ms ?s1))
         = [PathUpdate (obj_id ob)
             (map (\<lambda>q. \<lparr>pt_x = pt_x q + (clientX e - clientX e0) / rect_width ir * nat_w ns,
                        pt_y = pt_y q + (clientY e - clientY e0) / rect_height ir * nat_h ns\<rparr>)
                  (pathPoints ob))]"
    using drag_move_callbacks [OF assms(1) assms(6) assms(8) sn] by simp
  have b: "callbacks (canvas_actions p d (SvgMouseMove e) ?s1)
         = [PathUpdate (obj_id ob)
             (map (\<lambda>q. \<lparr>pt_x = pt_x q + (clientX e - clientX e0) / rect_width ir * nat_w ns,
                        pt_y = pt_y q + (clientY e - clientY e0) / rect_height ir * nat_h ns\<rparr>)
                  (pathPoints ob))]"
    using drag_move_callbacks [OF assms(1) assms(6) assms(8) s1] by simp
  from a b show ?thesis by simp
qed

theorem drag_translates_snapshot_without_drift_witness:
  "truthy (imageUrl idle_props) \<and> \<not> truthy (activeObjectId idle_props)
   \<and> \<not> isWorker idle_props \<and> onPathUpdate idle_props
   \<and> imgRect measured_canvas
        = Some \<lparr>rect_left = 10, rect_top = 20, rect_width = 200, rect_height = 100\<rparr>
   \<and> naturalSize measured_canvas = Some \<lparr>nat_w = 400, nat_h = 300\<rparr>
   \<and> callbacks (canvas_actions idle_props sample_dom (SvgMouseMove (at_client 120 80))
        (run_moves idle_props sample_dom [at_client 25 35, at_client 90 10]
           (canvas_step idle_props sample_dom (PathMouseDown sample_object (at_client 20 30))
              measured_canvas)))
      = [PathUpdate ''obj-1'' [pt 200 150, pt 240 180]]"
proof -
  have h: "truthy (imageUrl idle_props)" "\<not> truthy (activeObjectId idle_props)"
    "\<not> isWorker idle_props" "onPathUpdate idle_props"
    by (simp_all add: idle_props_def)
  have f: "imgRect measured_canvas
        = Some \<lparr>rect_left = 10, rect_top = 20, rect_width = 200, rect_height = 100\<rparr>"
    "naturalSize measured_canvas = Some \<lparr>nat_w = 400, nat_h = 300\<rparr>"
    by (simp_all add: measured_canvas_def)
  have "callbacks (canvas_actions idle_props sample_dom (SvgMouseMove (at_client 120 80))
        (run_moves idle_props sample_dom [at_client 25 35, at_client 90 10]
           (canvas_step idle_props sample_dom (PathMouseDown sample_object (at_client 20 30))
              measured_canvas)))
      = [PathUpdate ''obj-1'' [pt 200 150, pt 240 180]]"
    using drag_translates_snapshot_without_drift [OF h(1) f _ _ h(2) h(3) h(4),
        of sample_dom "at_client 120 80" "[at_client 25 35, at_client 90 10]"
           sample_object "at_client 20 30"]
    by (simp add: sample_object_def at_client_def pt_def)
  with h f show ?thesis by simp
qed

section \<open>A read-only viewer\<close>

lemma worker_step_no_drag:
  assumes "isWorker p" and "\<not> dragging s" and "dragRef s = None"
  shows "\<not> dragging (canvas_step p d ev s) \<and> dragRef (canvas_step p d ev s) = None"
  using assms
  by (cases ev)
     (auto simp add: canvas_step_def run_actions_def handleSvgClick_def handleSvgDoubleClick_def
        handleSvgMouseMove_def handleDragEnd_def svgMouseLeave_def pathMouseDown_def
        pathClick_def handleKeyDown_def measureImage_def Let_def split: option.splits)

lemma rerender_keeps_drag:
  "dragging (run_actions (rerender_effects p p') s) = dragging s
   \<and> dragRef (run_actions (rerender_effects p p') s) = dragRef s"
  by (simp add: rerender_effects_def run_actions_def imageUrl_effect_def activeObjectId_effect_def)

lemma worker_machine_step:
  assumes "isWorker (fst c)" and "\<not> dragging (snd c)" and "dragRef (snd c) = None"
    and "worker_input i"
  shows "isWorker (fst (machine_step i c)) \<and> \<not> dragging (snd (machine_step i c))
         \<and> dragRef (snd (machine_step i c)) = None"
  using assms
  by (cases i; cases c) (simp_all add: worker_step_no_drag rerender_keeps_drag)

lemma worker_machine_run:
  assumes "isWorker (fst c)" and "\<not> dragging (snd c)" and "dragRef (snd c) = None"
    and "\<forall>i \<in> set ins. worker_input i"
  shows "isWorker (fst (machine_run ins c)) \<and> \<not> dragging (snd (machine_run ins c))
         \<and> dragRef (snd (machine_run ins c)) = None"
  using assms unfolding machine_run_def
proof (induction ins arbitrary: c)
  case Nil
  then show ?case by simp
next
  case (Cons i ins)
  have "worker_input i" using Cons.prems(4) by simp
  from worker_machine_step [OF Cons.prems(1-3) this] Cons.IH [of "machine_step i c"] Cons.prems(4)
  show ?case by simp
qed

text \<open>
  Claim C9. While the viewer is read-only, no sequence of events and prop changes opens
  a drag session: from a state without one, the dragging flag stays false and no drag
  snapshot is held. In every state reached, a press on a path does nothing, and the
  cursor over a path is never the grab or grabbing cursor of a draggable selection.
\<close>

theorem worker_never_drags:
  assumes "isWorker p0" and "\<not> dragging s0" and "dragRef s0 = None"
    and "\<forall>i \<in> set ins. worker_input i"
  shows "\<not> dragging (snd (machine_run ins (p0, s0)))
       \<and> dragRef (snd (machine_run ins (p0, s0))) = None
       \<and> (\<forall>d ob e. canvas_actions (fst (machine_run ins (p0, s0))) d (PathMouseDown ob e)
                      (snd (machine_run ins (p0, s0))) = [])
       \<and> (\<forall>ob. path_cursor (fst (machine_run ins (p0, s0))) (snd (machine_run ins (p0, s0))) ob
                  \<noteq> ''grab''
              \<and> path_cursor (fst (machine_run ins (p0, s0))) (snd (machine_run ins (p0, s0))) ob
                  \<noteq> ''grabbing'')"
proof -
  have inv: "isWorker (fst (machine_run ins (p0, s0)))"
    "\<not> dragging (snd (machine_run ins (p0, s0)))"
    "dragRef (snd (machine_run ins (p0, s0))) = None"
    using worker_machine_run [of "(p0, s0)" ins] assms by simp_all
  have press: "\<forall>d ob e. canvas_actions (fst (machine_run ins (p0, s0))) d (PathMouseDown ob e)
                      (snd (machine_run ins (p0, s0))) = []"
    using inv(1) by (simp add: pathMouseDown_def)
  have cursor: "\<forall>ob. path_cursor (fst (machine_run ins (p0, s0))) (snd (machine_run ins (p0, s0))) ob
                  \<noteq> ''grab''
              \<and> path_cursor (fst (machine_run ins (p0, s0))) (snd (machine_run ins (p0, s0))) ob
                  \<noteq> ''grabbing''"
    using inv(1) by (simp add: path_cursor_def Let_def)
  from inv(2,3) press cursor show ?thesis by blast
qed

theorem worker_never_drags_witness:
  "isWorker worker_props \<and> \<not> dragging initial_canvas \<and> dragRef initial_canvas = None
   \<and> worker_input (Rerender (worker_props\<lparr>selectedObjectId := None\<rparr>))
   \<and> \<not> dragging (snd (machine_run
        [Event sample_dom Measure,
         Event sample_dom (PathMouseDown sample_object (at_client 20 30)),
         Rerender (worker_props\<lparr>selectedObjectId := None\<rparr>),
         Event sample_dom (SvgMouseMove (at_client 50 60))] (worker_props, initial_canvas)))
   \<and> dragRef (snd (machine_run
        [Event sample_dom Measure,
         Event sample_dom (PathMouseDown sample_object (at_client 20 30)),
         Rerender (worker_props\<lparr>selectedObjectId := None\<rparr>),
         Event sample_dom (SvgMouseMove (at_client 50 60))] (worker_props, initial_canvas))) = None"
proof -
  have h: "isWorker worker_props" "\<not> dragging initial_canvas" "dragRef initial_canvas = None"
    by (simp_all add: worker_props_def initial_canvas_def)
  have i: "\<forall>i \<in> set [Event sample_dom Measure,
         Event sample_dom (PathMouseDown sample_object (at_client 20 30)),
         Rerender (worker_props\<lparr>selectedObjectId := None\<rparr>),
         Event sample_dom (SvgMouseMove (at_client 50 60))]. worker_input i"
    by (simp add: worker_props_def)
  have w: "worker_input (Rerender (worker_props\<lparr>selectedObjectId := None\<rparr>))"
    by (simp add: worker_props_def)
  from worker_never_drags [OF h i] h w show ?thesis by blast
qed

section \<open>Drawing and dragging together\<close>

lemma drawn:
  "app_run draw_one_pipe (initial_app True) =
     \<lparr>page = \<lparr>objects = [drawn_object], page_activeObjectId = None,
         page_selectedObjectId = Some ''obj-1700000000000-1'',
         blueprintImage = Some ''plan.png'', isAdmin = True\<rparr>,
       canvas = measured_canvas\<rparr>"
  by (simp add: draw_one_pipe_def drawn_object_def measured_canvas_def trace_defs)

lemma activated_in_drag:
  "app_run activation_during_drag (initial_app True) =
     \<lparr>page = \<lparr>objects = [drawn_object,
           \<lparr>obj_id = ''obj-1700000000500-2'', obj_type = ''connection'', pathPoints = [],
            assignedTo = None, assignedToName = None, completed = False, drawing = True\<rparr>],
         page_activeObjectId = Some ''obj-1700000000500-2'',
         page_selectedObjectId = Some ''obj-1700000000500-2'',
         blueprintImage = Some ''plan.png'', isAdmin = True\<rparr>,
       canvas = measured_canvas\<lparr>dragging := True,
         dragRef := Some \<lparr>startClient = pt 120 78, startPoints = [pt 200 150, pt 240 180],
                           objId = ''obj-1700000000000-1''\<rparr>\<rparr>\<rparr>"
  unfolding activation_during_drag_def app_run_append drawn
  by (simp add: drawn_object_def measured_canvas_def initial_canvas_def app_step_def
      canvas_props_def rerender_effects_def imageUrl_effect_def activeObjectId_effect_def
      run_actions_def callbacks_def startDrawing_def makeId_def page_onObjectSelected_def
      svg_rendered_def pathMouseDown_def handlePathMouseDown_def sample_dom_def at_client_def
      pt_def Let_def)

lemma step_exclusive:
  assumes "exclusive (p, s)"
  shows "exclusive (p, canvas_step p d ev s)"
  using assms
  by (cases ev)
     (auto simp add: exclusive_def canvas_step_def run_actions_def handleSvgClick_def
        handleSvgDoubleClick_def handleSvgMouseMove_def handleDragMove_def handleDragEnd_def
        svgMouseLeave_def pathMouseDown_def handlePathMouseDown_def pathClick_def
        handleKeyDown_def measureImage_def Let_def split: option.splits)

text \<open>
  The two guards of the handlers: a press on a path while an identifier is active
  changes nothing, and a click on the overlay or on a path while a drag session is open
  leaves the point buffer as it is.
\<close>

lemma press_while_drawing_ignored:
  assumes "truthy (activeObjectId p)"
  shows "canvas_step p d (PathMouseDown ob e) s = s"
  using assms
  by (simp add: canvas_step_def run_actions_def pathMouseDown_def handlePathMouseDown_def)

lemma click_while_dragging_ignored:
  assumes "dragging s"
  shows "currentPoints (canvas_step p d (SvgClick e) s) = currentPoints s
       \<and> currentPoints (canvas_step p d (PathClick ob e) s) = currentPoints s"
  using assms
  by (simp add: canvas_step_def run_actions_def pathClick_def handleSvgClick_def)

lemma both_active_move:
  "canvas_actions (canvas_props (page (app_run activation_during_drag (initial_app True))))
      sample_dom (SvgMouseMove (at_client 140 88))
      (canvas (app_run activation_during_drag (initial_app True)))
   = [SetMousePos (Some (pt 250 189)),
      PathUpdate ''obj-1700000000000-1'' [pt 240 180, pt 280 210]]"
  unfolding activated_in_drag
  by (simp add: canvas_props_def measured_canvas_def initial_canvas_def svg_rendered_def
      handleSvgMouseMove_def handleDragMove_def clientToSvg_def sample_dom_def at_client_def
      pt_def Let_def)

text \<open>
  Claim C8 says that in every reachable state at most one of drawing and dragging is
  active. The handlers guard against opening a drag while drawing, but nothing ends an
  open drag session when an identifier becomes active: the effect of the new identifier
  resets the point buffer, the redo buffer and the pointer position only. On the page, a
  press on the finished pipe followed, with the button still down, by the start of
  another drawing leaves the new identifier active and the drag session open; a pointer
  move in that state both moves the rubber band of the new drawing and reports a moved
  path for the finished pipe. The component alone reaches such a state by a press
  followed by new props.
\<close>

theorem activation_during_drag_keeps_dragging:
  "drawn_object \<in> set (objects (page (app_run draw_one_pipe (initial_app True))))
   \<and> truthy (activeObjectId (canvas_props (page (app_run activation_during_drag (initial_app True)))))
   \<and> dragging (canvas (app_run activation_during_drag (initial_app True)))
   \<and> canvas_actions (canvas_props (page (app_run activation_during_drag (initial_app True))))
        sample_dom (SvgMouseMove (at_client 140 88))
        (canvas (app_run activation_during_drag (initial_app True)))
      = [SetMousePos (Some (pt 250 189)),
         PathUpdate ''obj-1700000000000-1'' [pt 240 180, pt 280 210]]
   \<and> \<not> exclusive (machine_run
          [Event sample_dom Measure,
           Event sample_dom (PathMouseDown sample_object (at_client 20 30)),
           Rerender drawing_props] (idle_props, initial_canvas))"
proof -
  have m: "\<not> exclusive (machine_run
          [Event sample_dom Measure,
           Event sample_dom (PathMouseDown sample_object (at_client 20 30)),
           Rerender drawing_props] (idle_props, initial_canvas))"
    by (simp add: exclusive_def machine_run_def canvas_step_def idle_props_def drawing_props_def
        initial_canvas_def measureImage_def sample_dom_def svg_rendered_def pathMouseDown_def
        handlePathMouseDown_def run_actions_def rerender_effects_def activeObjectId_effect_def)
  have st: "drawn_object \<in> set (objects (page (app_run draw_one_pipe (initial_app True))))"
    "truthy (activeObjectId (canvas_props (page (app_run activation_during_drag (initial_app True)))))"
    "dragging (canvas (app_run activation_during_drag (initial_app True)))"
    unfolding drawn activated_in_drag by (simp_all add: canvas_props_def)
  from st both_active_move m show ?thesis by blast
qed

end
